theory Spec2Isabelle
  imports Complex_Main
begin

section \<open>PromptLens: the heuristic analysis of \<^verbatim>\<open>app.py\<close>\<close>

text \<open>
  The helpers of \<^verbatim>\<open>app.py\<close> (\<^verbatim>\<open>detect_domain\<close>, \<^verbatim>\<open>analyze_prompt_quality\<close>,
  \<^verbatim>\<open>recommend_pattern\<close>, \<^verbatim>\<open>model_config\<close>, \<^verbatim>\<open>build_analysis_prompt\<close>) and the handler
  of the refine button, as HOL functions.

  Modelling decisions.
  \<^item> A Python \<^verbatim>\<open>str\<close> is a \<^typ>\<open>string\<close>: the text in UTF-8, one \<^typ>\<open>char\<close> per byte.
    The literals of the source that are not ASCII (the dash of the first issue text, the
    emoji of the template) are written as their UTF-8 bytes.
  \<^item> \<^verbatim>\<open>str.lower\<close> and \<^verbatim>\<open>str.split\<close> belong to the Python runtime. They are
    modelled on ASCII: \<open>lower\<close> maps \<open>A\<close>..\<open>Z\<close> to \<open>a\<close>..\<open>z\<close> and leaves every other
    byte as it is, and the separators of \<open>split\<close> are the ASCII characters for which
    \<^verbatim>\<open>str.isspace\<close> holds. No theorem about all prompts below unfolds \<open>lower\<close>: each
    one speaks of the lower-cased text \<open>lower prompt\<close>, whatever it is.
  \<^item> A Python \<^verbatim>\<open>float\<close> is a \<^typ>\<open>real\<close>: the temperatures and confidences are the
    decimal numbers that the source writes, and \<^verbatim>\<open>round(x, 2)\<close> is rounding to the
    nearest hundredth, a tie going to the even neighbour. Binary rounding error is not
    modelled.
  \<^item> A dictionary is an association list in insertion order, since
    \<^verbatim>\<open>detect_domain\<close> depends on the order in which a dictionary is iterated. The
    inner dictionaries of the two tables have fixed keys and are records.
\<close>

subsection \<open>Strings\<close>

definition char_lower :: "char \<Rightarrow> char" where
  "char_lower c =
     (case map_of (zip ''ABCDEFGHIJKLMNOPQRSTUVWXYZ'' ''abcdefghijklmnopqrstuvwxyz'') c of
        Some l \<Rightarrow> l
      | None \<Rightarrow> c)"

definition lower :: "string \<Rightarrow> string" where
  "lower s = map char_lower s"

text \<open>\<open>startswith s k\<close> is \<^verbatim>\<open>s.startswith(k)\<close>; \<open>contains s k\<close> is \<^verbatim>\<open>k in s\<close>.\<close>

fun startswith :: "string \<Rightarrow> string \<Rightarrow> bool" where
  "startswith s [] = True"
| "startswith [] (k # ks) = False"
| "startswith (c # cs) (k # ks) = (c = k \<and> startswith cs ks)"

fun contains :: "string \<Rightarrow> string \<Rightarrow> bool" where
  "contains [] k = (k = [])"
| "contains (c # cs) k = (startswith (c # cs) k \<or> contains cs k)"

definition isspace :: "char \<Rightarrow> bool" where
  "isspace c = (c \<in> set [CHR 0x09, CHR 0x0A, CHR 0x0B, CHR 0x0C, CHR 0x0D,
                          CHR 0x1C, CHR 0x1D, CHR 0x1E, CHR 0x1F, CHR 0x20])"

text \<open>
  \<^verbatim>\<open>s.split()\<close>: the maximal runs of characters that are not whitespace. \<open>w\<close> is the
  word being read.
\<close>

fun split_from :: "string \<Rightarrow> string \<Rightarrow> string list" where
  "split_from w [] = (if w = [] then [] else [w])"
| "split_from w (c # cs) =
     (if isspace c then (if w = [] then split_from [] cs else w # split_from [] cs)
      else split_from (w @ [c]) cs)"

definition str_split :: "string \<Rightarrow> string list" where
  "str_split s = split_from [] s"

definition strip :: "string \<Rightarrow> string" where
  "strip s = rev (dropWhile isspace (rev (dropWhile isspace s)))"

text \<open>\<^verbatim>\<open>str(n)\<close> for an integer, as the f-strings of the handler need it.\<close>

fun str_nat :: "nat \<Rightarrow> string" where
  "str_nat n =
     (if n < 10 then [''0123456789'' ! n]
      else str_nat (n div 10) @ [''0123456789'' ! (n mod 10)])"

declare str_nat.simps [simp del]

definition str_int :: "int \<Rightarrow> string" where
  "str_int i = (if i < 0 then ''-'' @ str_nat (nat (- i)) else str_nat (nat i))"

subsection \<open>Dictionaries in insertion order\<close>

text \<open>\<^verbatim>\<open>d[k] = v\<close>: an existing key keeps its place, a new key goes to the end.\<close>

fun dict_set :: "('k \<times> 'v) list \<Rightarrow> 'k \<Rightarrow> 'v \<Rightarrow> ('k \<times> 'v) list" where
  "dict_set [] k v = [(k, v)]"
| "dict_set ((k', v') # d) k v =
     (if k' = k then (k, v) # d else (k', v') # dict_set d k v)"

subsection \<open>The tables\<close>

record temp_cfg =
  temperature :: real

record domain_cfg = temp_cfg +
  "keywords" :: "string list"

record sampling_config = temp_cfg +
  max_tokens :: int

definition PROMPT_PATTERNS :: "(string \<times> temp_cfg) list" where
  "PROMPT_PATTERNS =
    [(''Zero-Shot'', \<lparr>temperature = 3/10\<rparr>),
     (''Few-Shot'', \<lparr>temperature = 2/10\<rparr>),
     (''Chain-of-Thought'', \<lparr>temperature = 2/10\<rparr>),
     (''Role-Play'', \<lparr>temperature = 4/10\<rparr>),
     (''Structured Output'', \<lparr>temperature = 1/10\<rparr>),
     (''Meta-Prompting'', \<lparr>temperature = 5/10\<rparr>)]"

definition DOMAIN_PATTERNS :: "(string \<times> domain_cfg) list" where
  "DOMAIN_PATTERNS =
    [(''coding'',
        \<lparr>temperature = 1/10,
         keywords = [''code'', ''function'', ''debug'', ''python'', ''program'']\<rparr>),
     (''data_analysis'',
        \<lparr>temperature = 2/10,
         keywords = [''data'', ''analyze'', ''statistics'', ''trend'']\<rparr>),
     (''creative'',
        \<lparr>temperature = 8/10,
         keywords = [''story'', ''write'', ''creative'', ''poem'']\<rparr>),
     (''research'',
        \<lparr>temperature = 3/10,
         keywords = [''research'', ''compare'', ''study'', ''analysis'']\<rparr>)]"

subsection \<open>\<^verbatim>\<open>detect_domain\<close>\<close>

text \<open>
  \<^verbatim>\<open>sum(1 for k in cfg["keywords"] if k in prompt)\<close>, for a prompt already in lower case.
\<close>

definition keyword_hits :: "string \<Rightarrow> domain_cfg \<Rightarrow> int" where
  "keyword_hits prompt cfg = sum_list [1. k \<leftarrow> keywords cfg, contains prompt k]"

text \<open>
  The loop over \<^verbatim>\<open>DOMAIN_PATTERNS.items()\<close>; \<open>scores\<close> is the dictionary built so far.
\<close>

fun score_domains ::
  "(string \<times> domain_cfg) list \<Rightarrow> string \<Rightarrow> (string \<times> int) list \<Rightarrow> (string \<times> int) list" where
  "score_domains [] prompt scores = scores"
| "score_domains ((domain, cfg) # rest) prompt scores =
     (let score = keyword_hits prompt cfg
      in if score \<noteq> 0 then score_domains rest prompt (dict_set scores domain score)
         else score_domains rest prompt scores)"

text \<open>
  \<^verbatim>\<open>max(scores, key=scores.get)\<close> walks the keys of \<open>scores\<close> in insertion order and
  replaces the element it holds only by one whose key value is strictly greater. The model
  walks the items, so that the value \<^verbatim>\<open>scores.get(k)\<close> of each key is at hand; the
  second component of the result is \<^verbatim>\<open>scores[best]\<close>.
\<close>

fun max_item :: "string \<times> int \<Rightarrow> (string \<times> int) list \<Rightarrow> string \<times> int" where
  "max_item best [] = best"
| "max_item best (kv # rest) =
     (if snd best < snd kv then max_item kv rest else max_item best rest)"

definition detect_domain :: "string \<Rightarrow> string \<times> real" where
  "detect_domain prompt0 =
     (let prompt = lower prompt0;
          scores = score_domains DOMAIN_PATTERNS prompt []
      in case scores of
           [] \<Rightarrow> (''general'', 1/2)
         | kv # rest \<Rightarrow>
             (let (best, s) = max_item kv rest
              in (best, min (of_int s / 3) 1)))"

subsection \<open>\<^verbatim>\<open>analyze_prompt_quality\<close>\<close>

record quality_report =
  issues :: "string list"
  score :: int

definition analyze_prompt_quality :: "string \<Rightarrow> quality_report" where
  "analyze_prompt_quality prompt =
     (let issues0 = [];
          words = int (length (str_split prompt));
          issues1 = (if words < 5
                     then issues0 @ [''Too short '' @ [CHR 0xE2, CHR 0x80, CHR 0x93] @ '' add more context'']
                     else issues0);
          issues2 = (if \<not> contains (lower prompt) ''format''
                     then issues1 @ [''No output format specified'']
                     else issues1)
      in \<lparr>issues = issues2, score = max 1 (10 - int (length issues2) * 2)\<rparr>)"

subsection \<open>\<^verbatim>\<open>recommend_pattern\<close>\<close>

definition recommend_pattern :: "string \<Rightarrow> string \<Rightarrow> string" where
  "recommend_pattern domain prompt =
     (if contains (lower prompt) ''step by step'' then ''Chain-of-Thought''
      else if contains (lower prompt) ''example'' then ''Few-Shot''
      else ''Zero-Shot'')"

subsection \<open>\<^verbatim>\<open>model_config\<close>\<close>

definition round_half_even :: "real \<Rightarrow> int" where
  "round_half_even x =
     (let f = \<lfloor>x\<rfloor>; d = x - of_int f
      in if d < 1/2 then f
         else if 1/2 < d then f + 1
         else if even f then f else f + 1)"

text \<open>\<^verbatim>\<open>round(x, ndigits)\<close> on decimal numbers.\<close>

definition py_round :: "real \<Rightarrow> nat \<Rightarrow> real" where
  "py_round x ndigits = of_int (round_half_even (x * 10 ^ ndigits)) / 10 ^ ndigits"

text \<open>
  \<^verbatim>\<open>T.get(name, {}).get("temperature", 0.5)\<close>: a name that is not in the table gives the
  empty dictionary, which has no temperature, hence 0.5; every entry of the two tables has
  a temperature.
\<close>

definition get_temperature :: "(string \<times> 'a temp_cfg_scheme) list \<Rightarrow> string \<Rightarrow> real" where
  "get_temperature table name =
     (case map_of table name of
        None \<Rightarrow> 1/2
      | Some cfg \<Rightarrow> temperature cfg)"

definition model_config :: "string \<Rightarrow> string \<Rightarrow> sampling_config" where
  "model_config domain pattern =
     (let base = get_temperature DOMAIN_PATTERNS domain;
          pat = get_temperature PROMPT_PATTERNS pattern
      in \<lparr>temperature = py_round ((base + pat) / 2) 2, max_tokens = 3000\<rparr>)"

text \<open>
  The tables read as functions: the temperature of a name, 0.5 for a name that its table
  does not have.
\<close>

definition domain_temperature :: "string \<Rightarrow> real" where
  "domain_temperature d =
     (if d = ''coding'' then 1/10
      else if d = ''data_analysis'' then 2/10
      else if d = ''creative'' then 8/10
      else if d = ''research'' then 3/10
      else 1/2)"

definition pattern_temperature :: "string \<Rightarrow> real" where
  "pattern_temperature n =
     (if n = ''Zero-Shot'' then 3/10
      else if n = ''Few-Shot'' then 2/10
      else if n = ''Chain-of-Thought'' then 2/10
      else if n = ''Role-Play'' then 4/10
      else if n = ''Structured Output'' then 1/10
      else if n = ''Meta-Prompting'' then 5/10
      else 1/2)"

subsection \<open>\<^verbatim>\<open>build_analysis_prompt\<close>\<close>

text \<open>
  The f-string of the source. \<open>str_float\<close> is the runtime's rendering of a
  \<^verbatim>\<open>float\<close> in an f-string; \<^verbatim>\<open>user_prompt\<close> is a parameter that the template does
  not use.
\<close>

definition build_analysis_prompt ::
  "(real \<Rightarrow> string) \<Rightarrow> string \<Rightarrow> string \<Rightarrow> string \<Rightarrow> sampling_config \<Rightarrow> string" where
  "build_analysis_prompt str_float user_prompt domain pattern cfg =
     ''\<newline>You are an expert Prompt Engineer.\<newline>\<newline>Analyze and improve the prompt using this structure:\<newline>\<newline>### ''
     @ [CHR 0xF0, CHR 0x9F, CHR 0x94, CHR 0x8D]
     @ '' Understanding\<newline>- Intent\<newline>- Ambiguities\<newline>- Missing details\<newline>\<newline>### ''
     @ [CHR 0xE2, CHR 0x9A, CHR 0xA0, CHR 0xEF, CHR 0xB8, CHR 0x8F]
     @ '' Issues\<newline>- Problems found\<newline>\<newline>### ''
     @ [CHR 0xE2, CHR 0x9C, CHR 0xA8]
     @ '' Optimized Prompt\<newline>Provide a refined, production-ready prompt using **''
     @ pattern
     @ ''** style.\<newline>\<newline>### ''
     @ [CHR 0xE2, CHR 0x9C, CHR 0x85]
     @ '' Checklist\<newline>- Role\<newline>- Context\<newline>- Task\<newline>- Constraints\<newline>- Output format\<newline>\<newline>Domain: ''
     @ domain
     @ ''\<newline>Recommended Temperature: ''
     @ str_float (temperature cfg)
     @ ''\<newline>''"

subsection \<open>The handler of the refine button\<close>

text \<open>
  What the handler does to the page is the list of its calls to the page framework, in
  order. The provider is the external chat-completion service: it takes a request and its
  own state (for a recording stub, the log of the requests received) and returns either
  the text of the exception raised inside the \<^verbatim>\<open>try\<close> block (\<open>Inl\<close>) or the text of the
  completion (\<open>Inr\<close>), with its new state. The provider is applied only where the source
  calls \<^verbatim>\<open>client.chat.completions.create\<close>.
\<close>

datatype ui_event =
    StError string
  | StWarning string
  | StSpinner string
  | StMetric string string
  | StWrite string
  | StMarkdown string
  | Sleep real

record chat_request =
  req_api_key :: string
  req_model :: string
  req_messages :: "(string \<times> string) list"
  req_temperature :: real
  req_max_tokens :: int

type_synonym 'st provider = "chat_request \<Rightarrow> 'st \<Rightarrow> (string + string) \<times> 'st"

definition success_box :: "string \<Rightarrow> string \<Rightarrow> string \<Rightarrow> string" where
  "success_box model_choice pattern domain =
     ''\<newline>                <div class='' @ [CHR 0x22] @ ''success-box'' @ [CHR 0x22]
     @ ''>\<newline>                '' @ [CHR 0xE2, CHR 0x9C, CHR 0x94] @ '' Completed using <strong>''
     @ model_choice
     @ ''</strong><br>\<newline>                Pattern: <strong>''
     @ pattern
     @ ''</strong> | Domain: <strong>''
     @ domain
     @ ''</strong>\<newline>                </div>\<newline>                ''"

definition refine_handler ::
  "'st provider \<Rightarrow> (real \<Rightarrow> string) \<Rightarrow> bool \<Rightarrow> string \<Rightarrow> string \<Rightarrow> string \<Rightarrow> 'st
     \<Rightarrow> ui_event list \<times> 'st" where
  "refine_handler provider str_float refine_btn api_key model_choice user_prompt st =
     (if \<not> refine_btn then ([], st)
      else if api_key = [] then ([StError ''Please enter your Groq API key.''], st)
      else if strip user_prompt = [] then ([StWarning ''Please enter a prompt.''], st)
      else
        (let (domain, confidence) = detect_domain user_prompt;
             quality = analyze_prompt_quality user_prompt;
             pattern = recommend_pattern domain user_prompt;
             cfg = model_config domain pattern;
             analysed =
               [StSpinner ([CHR 0xF0, CHR 0x9F, CHR 0x94, CHR 0x8D] @ '' Analyzing prompt...''),
                StMetric ''Domain'' domain,
                StMetric ''Pattern'' pattern,
                StMetric ''Quality'' (str_int (score quality) @ ''/10'')]
               @ (if issues quality \<noteq> []
                  then StWarning ([CHR 0xE2, CHR 0x9A, CHR 0xA0, CHR 0xEF, CHR 0xB8, CHR 0x8F]
                                  @ '' Issues detected:'')
                       # map (\<lambda>i. StWrite (''- '' @ i)) (issues quality)
                  else [])
               @ [Sleep (1/2),
                  StSpinner ([CHR 0xF0, CHR 0x9F, CHR 0xA4, CHR 0x96]
                             @ '' Refining with Groq LLaMA-3...'')];
             analysis_prompt = build_analysis_prompt str_float user_prompt domain pattern cfg;
             request =
               \<lparr>req_api_key = api_key,
                req_model = model_choice,
                req_messages =
                  [(''system'', ''You are an expert Prompt Engineer.''),
                   (''user'', analysis_prompt @ ''\<newline>\<newline>USER PROMPT:\<newline>'' @ user_prompt)],
                req_temperature = temperature cfg,
                req_max_tokens = max_tokens cfg\<rparr>;
             (response, st') = provider request st
         in case response of
              Inr output \<Rightarrow>
                (analysed
                 @ [StMarkdown ''---'',
                    StMarkdown (''### '' @ [CHR 0xF0, CHR 0x9F, CHR 0x8E, CHR 0xAF]
                                @ '' AI Analysis & Optimized Prompt''),
                    StMarkdown output,
                    StMarkdown (success_box model_choice pattern domain)],
                 st')
            | Inl e \<Rightarrow> (analysed @ [StError (''Groq API Error: '' @ e)], st')))"

text \<open>A stub provider that answers every request and records it.\<close>

definition recording_provider :: "string \<Rightarrow> chat_request list provider" where
  "recording_provider answer request seen = (Inr answer, seen @ [request])"

subsection \<open>The hit count of every domain, in table order\<close>

definition scored :: "(string \<times> domain_cfg) list \<Rightarrow> string \<Rightarrow> (string \<times> int) list" where
  "scored table p = map (\<lambda>(d, cfg). (d, keyword_hits p cfg)) table"

section \<open>Properties\<close>

subsection \<open>Containment\<close>

lemma startswith_iff: "startswith s k \<longleftrightarrow> (\<exists>t. s = k @ t)"
  by (induction s k rule: startswith.induct) auto

lemma contains_iff: "contains s k \<longleftrightarrow> (\<exists>p t. s = p @ k @ t)"
proof (induction s)
  case Nil
  then show ?case by simp
next
  case (Cons c cs)
  show ?case
  proof
    assume "contains (c # cs) k"
    then consider "startswith (c # cs) k" | "contains cs k" by auto
    then show "\<exists>p t. c # cs = p @ k @ t"
    proof cases
      case 1
      then obtain t where "c # cs = k @ t" by (auto simp: startswith_iff)
      then have "c # cs = [] @ k @ t" by simp
      then show ?thesis by blast
    next
      case 2
      then obtain p t where "cs = p @ k @ t" using Cons.IH by blast
      then have "c # cs = (c # p) @ k @ t" by simp
      then show ?thesis by blast
    qed
  next
    assume "\<exists>p t. c # cs = p @ k @ t"
    then obtain p t where e: "c # cs = p @ k @ t" by blast
    show "contains (c # cs) k"
    proof (cases p)
      case Nil
      with e have "startswith (c # cs) k" by (auto simp: startswith_iff)
      then show ?thesis by simp
    next
      case (Cons a p')
      with e have "cs = p' @ k @ t" by simp
      then have "contains cs k" using Cons.IH by blast
      then show ?thesis by simp
    qed
  qed
qed


subsection \<open>The loop and the maximum of \<^verbatim>\<open>detect_domain\<close>\<close>

lemma keyword_hits_length:
  "keyword_hits p cfg = int (length (filter (contains p) (keywords cfg)))"
proof -
  have "sum_list [1. k \<leftarrow> ks, contains p k] = int (length (filter (contains p) ks))" for ks
    by (induction ks) auto
  then show ?thesis by (simp add: keyword_hits_def)
qed

lemma keyword_hits_nonneg: "0 \<le> keyword_hits p cfg"
  by (simp add: keyword_hits_length)

lemma keyword_hits_pos_iff:
  "0 < keyword_hits p cfg \<longleftrightarrow> (\<exists>k \<in> set (keywords cfg). contains p k)"
  by (auto simp: keyword_hits_length filter_empty_conv)

lemma keyword_hits_zero_iff:
  "keyword_hits p cfg = 0 \<longleftrightarrow> (\<forall>k \<in> set (keywords cfg). \<not> contains p k)"
  by (auto simp: keyword_hits_length filter_empty_conv)

lemma dict_set_fresh: "k \<notin> fst ` set d \<Longrightarrow> dict_set d k v = d @ [(k, v)]"
  by (induction d) auto

lemma score_domains_eq:
  "distinct (map fst table) \<Longrightarrow> fst ` set acc \<inter> fst ` set table = {} \<Longrightarrow>
   score_domains table p acc = acc @ filter (\<lambda>kv. snd kv \<noteq> 0) (scored table p)"
proof (induction table arbitrary: acc)
  case Nil
  then show ?case by (simp add: scored_def)
next
  case (Cons e table)
  obtain d cfg where e: "e = (d, cfg)" by (cases e)
  from Cons.prems e have fresh: "d \<notin> fst ` set acc" by auto
  from Cons.prems e have dist: "distinct (map fst table)" and dnot: "d \<notin> fst ` set table" by auto
  show ?case
  proof (cases "keyword_hits p cfg = 0")
    case True
    have "fst ` set acc \<inter> fst ` set table = {}" using Cons.prems by auto
    from Cons.IH [OF dist this] True e show ?thesis by (simp add: scored_def)
  next
    case False
    let ?acc = "acc @ [(d, keyword_hits p cfg)]"
    have "fst ` set ?acc \<inter> fst ` set table = {}" using Cons.prems dnot by auto
    from Cons.IH [OF dist this] False e fresh show ?thesis
      by (simp add: scored_def dict_set_fresh)
  qed
qed

lemma max_item_keep: "\<forall>x \<in> set post. snd x \<le> snd b \<Longrightarrow> max_item b post = b"
  by (induction post) auto

lemma max_item_later:
  "snd b < snd e \<Longrightarrow> \<forall>x \<in> set pre. snd x < snd e \<Longrightarrow> \<forall>x \<in> set post. snd x \<le> snd e \<Longrightarrow>
   max_item b (pre @ e # post) = e"
  by (induction pre arbitrary: b) (auto simp: max_item_keep)

lemma max_item_first_max:
  assumes "\<forall>x \<in> set pre. snd x < snd e" and "\<forall>x \<in> set post. snd x \<le> snd e"
    and "pre @ e # post = kv # rest"
  shows "max_item kv rest = e"
proof (cases pre)
  case Nil
  with assms show ?thesis by (simp add: max_item_keep)
next
  case (Cons b pre')
  with assms show ?thesis by (auto simp: max_item_later)
qed

lemma max_item_mem: "max_item b xs \<in> set (b # xs)"
  by (induction xs arbitrary: b) (auto split: if_splits)

lemma distinct_domains: "distinct (map fst DOMAIN_PATTERNS)"
  by (simp add: DOMAIN_PATTERNS_def)

lemma scores_eq:
  "score_domains DOMAIN_PATTERNS p [] = filter (\<lambda>kv. snd kv \<noteq> 0) (scored DOMAIN_PATTERNS p)"
  using score_domains_eq [OF distinct_domains, of "[]" p] by simp

lemma detect_domain_unfold:
  "detect_domain p =
     (case filter (\<lambda>kv. snd kv \<noteq> 0) (scored DOMAIN_PATTERNS (lower p)) of
        [] \<Rightarrow> (''general'', 1/2)
      | kv # rest \<Rightarrow> (fst (max_item kv rest), min (of_int (snd (max_item kv rest)) / 3) 1))"
  by (simp add: detect_domain_def scores_eq Let_def case_prod_unfold split: list.splits)

lemma detect_domain_first_max:
  assumes i: "i < length DOMAIN_PATTERNS"
    and pos: "0 < keyword_hits (lower p) (snd (DOMAIN_PATTERNS ! i))"
    and le: "\<forall>k < length DOMAIN_PATTERNS.
               keyword_hits (lower p) (snd (DOMAIN_PATTERNS ! k))
               \<le> keyword_hits (lower p) (snd (DOMAIN_PATTERNS ! i))"
    and less: "\<forall>k < i. keyword_hits (lower p) (snd (DOMAIN_PATTERNS ! k))
               < keyword_hits (lower p) (snd (DOMAIN_PATTERNS ! i))"
  shows "detect_domain p =
           (fst (DOMAIN_PATTERNS ! i),
            min (of_int (keyword_hits (lower p) (snd (DOMAIN_PATTERNS ! i))) / 3) 1)"
proof -
  let ?xs = "scored DOMAIN_PATTERNS (lower p)"
  let ?nz = "\<lambda>kv::string \<times> int. snd kv \<noteq> 0"
  let ?e = "?xs ! i"
  have len: "length ?xs = length DOMAIN_PATTERNS" by (simp add: scored_def)
  have nth: "?xs ! k = (fst (DOMAIN_PATTERNS ! k), keyword_hits (lower p) (snd (DOMAIN_PATTERNS ! k)))"
    if "k < length DOMAIN_PATTERNS" for k
    using that by (simp add: scored_def case_prod_unfold)
  have split: "?xs = take i ?xs @ ?e # drop (Suc i) ?xs"
    using i len by (simp add: id_take_nth_drop)
  have e_nz: "?nz ?e" using pos nth [OF i] by simp
  have "filter ?nz ?xs = filter ?nz (take i ?xs) @ filter ?nz (?e # drop (Suc i) ?xs)"
    by (subst split) (simp only: filter_append)
  then have fsplit: "filter ?nz ?xs = filter ?nz (take i ?xs) @ ?e # filter ?nz (drop (Suc i) ?xs)"
    using e_nz by simp
  have pre: "\<forall>x \<in> set (filter ?nz (take i ?xs)). snd x < snd ?e"
  proof
    fix x assume "x \<in> set (filter ?nz (take i ?xs))"
    then have "x \<in> set (take i ?xs)" by simp
    then obtain k where k: "k < i" "k < length ?xs" and x: "x = ?xs ! k"
      by (auto simp: in_set_conv_nth)
    from k len have "k < length DOMAIN_PATTERNS" by simp
    with k less nth [OF this] nth [OF i] x show "snd x < snd ?e" by simp
  qed
  have post: "\<forall>x \<in> set (filter ?nz (drop (Suc i) ?xs)). snd x \<le> snd ?e"
  proof
    fix x assume "x \<in> set (filter ?nz (drop (Suc i) ?xs))"
    then have "x \<in> set ?xs" by (auto dest: in_set_dropD)
    then obtain k where k: "k < length ?xs" and x: "x = ?xs ! k"
      by (auto simp: in_set_conv_nth)
    from k len have "k < length DOMAIN_PATTERNS" by simp
    with le nth [OF this] nth [OF i] x show "snd x \<le> snd ?e" by simp
  qed
  show ?thesis
  proof (cases "filter ?nz ?xs")
    case Nil
    with fsplit show ?thesis by simp
  next
    case (Cons kv rest)
    with fsplit have "filter ?nz (take i ?xs) @ ?e # filter ?nz (drop (Suc i) ?xs) = kv # rest"
      by simp
    from max_item_first_max [OF pre post this] have "max_item kv rest = ?e" .
    with Cons nth [OF i] show ?thesis by (simp add: detect_domain_unfold)
  qed
qed

lemma detect_domain_general:
  assumes "\<forall>(d, cfg) \<in> set DOMAIN_PATTERNS. keyword_hits (lower p) cfg = 0"
  shows "detect_domain p = (''general'', 1/2)"
proof -
  have "filter (\<lambda>kv. snd kv \<noteq> 0) (scored DOMAIN_PATTERNS (lower p)) = []"
    using assms by (auto simp: filter_empty_conv scored_def)
  then show ?thesis by (simp add: detect_domain_unfold)
qed

lemma detect_domain_cases:
  obtains (general) "detect_domain p = (''general'', 1/2)"
      and "\<forall>(d, cfg) \<in> set DOMAIN_PATTERNS. keyword_hits (lower p) cfg = 0"
  | (found) d cfg where "(d, cfg) \<in> set DOMAIN_PATTERNS"
      and "0 < keyword_hits (lower p) cfg"
      and "detect_domain p = (d, min (of_int (keyword_hits (lower p) cfg) / 3) 1)"
proof (cases "filter (\<lambda>kv. snd kv \<noteq> 0) (scored DOMAIN_PATTERNS (lower p))")
  case Nil
  then have z: "\<forall>(d, cfg) \<in> set DOMAIN_PATTERNS. keyword_hits (lower p) cfg = 0"
    by (auto simp: filter_empty_conv scored_def)
  from general [OF detect_domain_general [OF z] z] show ?thesis .
next
  case (Cons kv rest)
  let ?b = "max_item kv rest"
  have "?b \<in> set (kv # rest)" by (rule max_item_mem)
  with Cons have "?b \<in> set (filter (\<lambda>kv. snd kv \<noteq> 0) (scored DOMAIN_PATTERNS (lower p)))"
    by simp
  then have nz: "snd ?b \<noteq> 0" and mem: "?b \<in> set (scored DOMAIN_PATTERNS (lower p))" by auto
  from mem obtain d cfg where dc: "(d, cfg) \<in> set DOMAIN_PATTERNS"
    and b: "?b = (d, keyword_hits (lower p) cfg)"
    by (auto simp: scored_def)
  from nz b keyword_hits_nonneg [of "lower p" cfg] have "0 < keyword_hits (lower p) cfg" by simp
  moreover from Cons b have "detect_domain p = (d, min (of_int (keyword_hits (lower p) cfg) / 3) 1)"
    by (simp add: detect_domain_unfold)
  ultimately show ?thesis using dc found by blast
qed


subsection \<open>Evaluation and the keys of the domain table\<close>

lemmas eval_defs =
  detect_domain_def lower_def char_lower_def DOMAIN_PATTERNS_def keyword_hits_def Let_def

lemmas quality_defs =
  analyze_prompt_quality_def str_split_def isspace_def lower_def char_lower_def Let_def

lemma same_key_same_cfg:
  "(d, cfg) \<in> set DOMAIN_PATTERNS \<Longrightarrow> (d, cfg') \<in> set DOMAIN_PATTERNS \<Longrightarrow> cfg = cfg'"
  using distinct_domains by (rule eq_key_imp_eq_value)

lemma map_of_domain:
  "(d, cfg) \<in> set DOMAIN_PATTERNS \<Longrightarrow> map_of DOMAIN_PATTERNS d = Some cfg"
  using distinct_domains by (rule map_of_is_SomeI)

lemma general_not_domain: "map_of DOMAIN_PATTERNS ''general'' = None"
  by (simp add: DOMAIN_PATTERNS_def)

lemma domain_indices: "k < length DOMAIN_PATTERNS \<longleftrightarrow> k = 0 \<or> k = 1 \<or> k = 2 \<or> k = 3"
  by (auto simp: DOMAIN_PATTERNS_def)

lemma get_domain_temperature: "get_temperature DOMAIN_PATTERNS d = domain_temperature d"
  by (simp add: get_temperature_def DOMAIN_PATTERNS_def domain_temperature_def)

lemma get_pattern_temperature: "get_temperature PROMPT_PATTERNS n = pattern_temperature n"
  by (simp add: get_temperature_def PROMPT_PATTERNS_def pattern_temperature_def)

lemma py_round_tenth: "py_round ((1/10 + 1/10) / 2) 2 = 1/10"
  by (simp add: py_round_def round_half_even_def)

section \<open>The claims\<close>

subsection \<open>The domain classifier\<close>

text \<open>
  C4. A prompt whose lower-cased text contains none of the keywords of the domain table
  is classified as \<open>general\<close> with confidence 0.5.
\<close>

theorem detect_domain_no_keyword:
  assumes "\<forall>(d, cfg) \<in> set DOMAIN_PATTERNS. \<forall>k \<in> set (keywords cfg). \<not> contains (lower prompt) k"
  shows "detect_domain prompt = (''general'', 1/2)"
proof (rule detect_domain_general)
  show "\<forall>(d, cfg) \<in> set DOMAIN_PATTERNS. keyword_hits (lower prompt) cfg = 0"
    using assms by (auto simp: keyword_hits_zero_iff)
qed

text \<open>
  C4 at the prompt \<open>Hello, World!\<close>, which has no keyword.
\<close>

theorem detect_domain_no_keyword_witness:
  "detect_domain ''Hello, World!'' = (''general'', 1/2)"
proof -
  have "\<forall>(d, cfg) \<in> set DOMAIN_PATTERNS. \<forall>k \<in> set (keywords cfg).
          \<not> contains (lower ''Hello, World!'') k"
    by (simp add: DOMAIN_PATTERNS_def lower_def char_lower_def)
  then show ?thesis by (rule detect_domain_no_keyword)
qed

text \<open>
  C5. When the keywords of exactly one domain \<open>d\<close> occur in the lower-cased prompt, \<open>k\<close>
  of them with \<open>0 < k\<close>, and no keyword of any other domain occurs, the result is \<open>d\<close>
  with confidence \<open>min (k / 3) 1\<close>.
\<close>

theorem detect_domain_single_domain:
  assumes mem: "(d, cfg) \<in> set DOMAIN_PATTERNS"
    and k: "k = length (filter (contains (lower prompt)) (keywords cfg))"
    and pos: "0 < k"
    and others: "\<forall>(d', cfg') \<in> set DOMAIN_PATTERNS.
                   d' \<noteq> d \<longrightarrow> (\<forall>w \<in> set (keywords cfg'). \<not> contains (lower prompt) w)"
  shows "detect_domain prompt = (d, min (real k / 3) 1)"
proof (cases prompt rule: detect_domain_cases)
  case general
  with mem have "keyword_hits (lower prompt) cfg = 0" by auto
  with k pos show ?thesis by (simp add: keyword_hits_length)
next
  case (found d' cfg')
  have "d' = d"
  proof (rule ccontr)
    assume "d' \<noteq> d"
    with others found(1) have "\<forall>w \<in> set (keywords cfg'). \<not> contains (lower prompt) w" by auto
    then have "keyword_hits (lower prompt) cfg' = 0" by (simp add: keyword_hits_zero_iff)
    with found(2) show False by simp
  qed
  with found(1) mem have "cfg' = cfg" by (auto dest: same_key_same_cfg)
  with found(3) \<open>d' = d\<close> k show ?thesis by (simp add: keyword_hits_length)
qed

text \<open>
  C5 at \<open>Debug my Python\<close>: two keywords of \<open>coding\<close>, none of another domain.
\<close>

theorem detect_domain_single_domain_witness:
  "detect_domain ''Debug my Python'' = (''coding'', 2/3)"
proof -
  let ?cfg = "\<lparr>temperature = 1/10,
               keywords = [''code'', ''function'', ''debug'', ''python'', ''program'']\<rparr>"
  have mem: "(''coding'', ?cfg) \<in> set DOMAIN_PATTERNS" by (simp add: DOMAIN_PATTERNS_def)
  have k: "(2::nat) = length (filter (contains (lower ''Debug my Python'')) (keywords ?cfg))"
    by (simp add: lower_def char_lower_def)
  have pos: "0 < (2::nat)" by simp
  have others: "\<forall>(d', cfg') \<in> set DOMAIN_PATTERNS.
        d' \<noteq> ''coding'' \<longrightarrow> (\<forall>w \<in> set (keywords cfg'). \<not> contains (lower ''Debug my Python'') w)"
    by (simp add: DOMAIN_PATTERNS_def lower_def char_lower_def)
  from detect_domain_single_domain [OF mem k pos others] show ?thesis by simp
qed

text \<open>
  C3. Let the domains at positions \<open>i < j\<close> of the table be tied at the same hit count,
  let that count be positive and maximal over the table, and let \<open>i\<close> be the first
  position that reaches it. Then \<^verbatim>\<open>detect_domain\<close> returns the domain at position \<open>i\<close>:
  of the tied domains, the one that comes first in the iteration order of the table.
\<close>

theorem detect_domain_tie_first:
  assumes ij: "i < j" and j: "j < length DOMAIN_PATTERNS"
    and tie: "keyword_hits (lower prompt) (snd (DOMAIN_PATTERNS ! j))
              = keyword_hits (lower prompt) (snd (DOMAIN_PATTERNS ! i))"
    and pos: "0 < keyword_hits (lower prompt) (snd (DOMAIN_PATTERNS ! i))"
    and maximal: "\<forall>k < length DOMAIN_PATTERNS.
               keyword_hits (lower prompt) (snd (DOMAIN_PATTERNS ! k))
               \<le> keyword_hits (lower prompt) (snd (DOMAIN_PATTERNS ! i))"
    and first: "\<forall>k < i. keyword_hits (lower prompt) (snd (DOMAIN_PATTERNS ! k))
               < keyword_hits (lower prompt) (snd (DOMAIN_PATTERNS ! i))"
  shows "fst (detect_domain prompt) = fst (DOMAIN_PATTERNS ! i)"
proof -
  from ij j have "i < length DOMAIN_PATTERNS" by simp
  from detect_domain_first_max [OF this pos maximal first] show ?thesis by simp
qed

text \<open>
  C3 at \<open>Analyze this Story\<close>: \<open>data_analysis\<close> (position 1) and \<open>creative\<close>
  (position 2) have one hit each, the other two domains none.
\<close>

theorem detect_domain_tie_first_witness:
  "fst (detect_domain ''Analyze this Story'') = ''data_analysis''"
proof -
  let ?p = "''Analyze this Story''"
  have h: "keyword_hits (lower ?p) (snd (DOMAIN_PATTERNS ! 0)) = 0"
     "keyword_hits (lower ?p) (snd (DOMAIN_PATTERNS ! 1)) = 1"
     "keyword_hits (lower ?p) (snd (DOMAIN_PATTERNS ! 2)) = 1"
     "keyword_hits (lower ?p) (snd (DOMAIN_PATTERNS ! 3)) = 0"
    by (simp_all add: DOMAIN_PATTERNS_def keyword_hits_def lower_def char_lower_def)
  have ij: "(1::nat) < 2" by simp
  have j: "2 < length DOMAIN_PATTERNS" by (simp add: DOMAIN_PATTERNS_def)
  have tie: "keyword_hits (lower ?p) (snd (DOMAIN_PATTERNS ! 2))
              = keyword_hits (lower ?p) (snd (DOMAIN_PATTERNS ! 1))" using h by simp
  have pos: "0 < keyword_hits (lower ?p) (snd (DOMAIN_PATTERNS ! 1))" using h by simp
  have maximal: "\<forall>k < length DOMAIN_PATTERNS.
               keyword_hits (lower ?p) (snd (DOMAIN_PATTERNS ! k))
               \<le> keyword_hits (lower ?p) (snd (DOMAIN_PATTERNS ! 1))"
    using h by (auto simp: domain_indices)
  have first: "\<forall>k < 1. keyword_hits (lower ?p) (snd (DOMAIN_PATTERNS ! k))
               < keyword_hits (lower ?p) (snd (DOMAIN_PATTERNS ! 1))"
    using h by simp
  from detect_domain_tie_first [OF ij j tie pos maximal first]
  show ?thesis by (simp add: DOMAIN_PATTERNS_def)
qed

text \<open>
  C10. If \<^verbatim>\<open>detect_domain\<close> returns a name other than \<open>general\<close>, the name is a domain
  of the table, at least one keyword of that domain occurs in the lower-cased prompt, and
  the confidence is at least \<open>1/3\<close>. The confidence is always between 0 and 1.
\<close>

theorem detect_domain_specific:
  "(fst (detect_domain prompt) \<noteq> ''general'' \<longrightarrow>
      (\<exists>cfg. map_of DOMAIN_PATTERNS (fst (detect_domain prompt)) = Some cfg
             \<and> (\<exists>k \<in> set (keywords cfg). contains (lower prompt) k))
      \<and> 1/3 \<le> snd (detect_domain prompt))
   \<and> 0 \<le> snd (detect_domain prompt) \<and> snd (detect_domain prompt) \<le> 1"
proof (cases prompt rule: detect_domain_cases)
  case general
  then show ?thesis by simp
next
  case (found d cfg)
  from found(2) have "1 \<le> keyword_hits (lower prompt) cfg" by simp
  then have "(1::real) \<le> of_int (keyword_hits (lower prompt) cfg)" by linarith
  then have conf: "1/3 \<le> min (real_of_int (keyword_hits (lower prompt) cfg) / 3) 1" by simp
  from found(2) have "\<exists>k \<in> set (keywords cfg). contains (lower prompt) k"
    by (simp add: keyword_hits_pos_iff)
  with found(1,3) conf show ?thesis by (simp add: map_of_domain)
qed

text \<open>
  C10 at \<open>Write a poem\<close>, which is classified as \<open>creative\<close>.
\<close>

theorem detect_domain_specific_witness:
  "map_of DOMAIN_PATTERNS (fst (detect_domain ''Write a poem'')) \<noteq> None
   \<and> 1/3 \<le> snd (detect_domain ''Write a poem'')"
proof -
  have "fst (detect_domain ''Write a poem'') \<noteq> ''general''" by (simp add: eval_defs)
  with detect_domain_specific [of "''Write a poem''"] show ?thesis by auto
qed

text \<open>
  C1, as it holds of the code. Every name other than \<open>general\<close> that
  \<^verbatim>\<open>detect_domain\<close> returns is a key of the domain table. The name \<open>general\<close> is not a
  key: when \<^verbatim>\<open>detect_domain\<close> returns it, the lookup of \<^verbatim>\<open>model_config\<close> finds nothing
  and the domain temperature is the default 0.5.
\<close>

theorem detect_domain_lookup:
  "(fst (detect_domain prompt) \<noteq> ''general'' \<longrightarrow>
      map_of DOMAIN_PATTERNS (fst (detect_domain prompt)) \<noteq> None)
   \<and> (fst (detect_domain prompt) = ''general'' \<longrightarrow>
      map_of DOMAIN_PATTERNS (fst (detect_domain prompt)) = None
      \<and> get_temperature DOMAIN_PATTERNS (fst (detect_domain prompt)) = 1/2)"
proof (cases prompt rule: detect_domain_cases)
  case general
  then show ?thesis by (simp add: general_not_domain get_temperature_def)
next
  case (found d cfg)
  from found(1) have "map_of DOMAIN_PATTERNS d = Some cfg" by (rule map_of_domain)
  moreover from this have "d \<noteq> ''general''" using general_not_domain by auto
  ultimately show ?thesis using found(3) by simp
qed

text \<open>
  C1 at \<open>Write a poem\<close> (a domain of the table) and at \<open>hello\<close> (\<open>general\<close>).
\<close>

theorem detect_domain_lookup_witness:
  "map_of DOMAIN_PATTERNS (fst (detect_domain ''Write a poem'')) \<noteq> None
   \<and> map_of DOMAIN_PATTERNS (fst (detect_domain ''hello'')) = None
   \<and> get_temperature DOMAIN_PATTERNS (fst (detect_domain ''hello'')) = 1/2"
proof -
  have a: "fst (detect_domain ''Write a poem'') \<noteq> ''general''" by (simp add: eval_defs)
  have b: "fst (detect_domain ''hello'') = ''general''" by (simp add: eval_defs)
  from a b detect_domain_lookup [of "''Write a poem''"] detect_domain_lookup [of "''hello''"]
  show ?thesis by blast
qed

text \<open>
  C1 as the specification states it fails: \<^verbatim>\<open>detect_domain\<close> returns \<open>general\<close> for the
  prompt \<open>hello\<close>, and the domain table has no entry of that name.
\<close>

theorem general_lookup_counterexample:
  "fst (detect_domain ''hello'') = ''general''
   \<and> map_of DOMAIN_PATTERNS (fst (detect_domain ''hello'')) = None"
  by (simp add: detect_domain_def lower_def char_lower_def DOMAIN_PATTERNS_def keyword_hits_def)

subsection \<open>The quality heuristic\<close>

text \<open>
  C2, as it holds of the code. For the prompt \<open>hi\<close> the issues are the two texts of the
  source, in this order and without a full stop at the end, and the score is 6.
\<close>

theorem analyze_hi:
  "analyze_prompt_quality ''hi'' =
     \<lparr>issues = [''Too short '' @ [CHR 0xE2, CHR 0x80, CHR 0x93] @ '' add more context'',
                ''No output format specified''],
      score = 6\<rparr>"
  by (simp add: quality_defs)

text \<open>
  C2 as the specification states it fails: neither of the two texts that end in a full stop
  is among the issues reported for \<open>hi\<close>.
\<close>

theorem analyze_hi_counterexample:
  "''Too short '' @ [CHR 0xE2, CHR 0x80, CHR 0x93] @ '' add more context.''
     \<notin> set (issues (analyze_prompt_quality ''hi''))
   \<and> ''No output format specified.'' \<notin> set (issues (analyze_prompt_quality ''hi''))"
  by (simp add: quality_defs)

text \<open>
  C8. For every prompt there are at most two issues, the score is 10 minus twice their
  number, hence one of 6, 8 and 10 and between 1 and 10, and the lower bound 1 of
  \<^verbatim>\<open>max(1, ...)\<close> never changes the result.
\<close>

theorem quality_score_range:
  "length (issues (analyze_prompt_quality prompt)) \<le> 2
   \<and> score (analyze_prompt_quality prompt)
       = 10 - 2 * int (length (issues (analyze_prompt_quality prompt)))
   \<and> score (analyze_prompt_quality prompt) \<in> {6, 8, 10}
   \<and> 1 \<le> score (analyze_prompt_quality prompt)
   \<and> score (analyze_prompt_quality prompt) \<le> 10
   \<and> max 1 (10 - int (length (issues (analyze_prompt_quality prompt))) * 2)
       = 10 - int (length (issues (analyze_prompt_quality prompt))) * 2"
  by (simp add: analyze_prompt_quality_def Let_def)

subsection \<open>The pattern recommender and the sampling configuration\<close>

text \<open>
  C6. Whatever the domain, \<^verbatim>\<open>recommend_pattern\<close> returns \<open>Chain-of-Thought\<close> if the
  lower-cased prompt contains \<open>step by step\<close>, otherwise \<open>Few-Shot\<close> if it contains
  \<open>example\<close>, otherwise \<open>Zero-Shot\<close>; \<open>step by step\<close> wins when both occur, and no other
  name is returned.
\<close>

theorem recommend_pattern_spec:
  "recommend_pattern domain prompt =
     (if contains (lower prompt) ''step by step'' then ''Chain-of-Thought''
      else if contains (lower prompt) ''example'' then ''Few-Shot''
      else ''Zero-Shot'')
   \<and> (contains (lower prompt) ''step by step'' \<and> contains (lower prompt) ''example''
        \<longrightarrow> recommend_pattern domain prompt = ''Chain-of-Thought'')
   \<and> recommend_pattern domain prompt \<in> {''Chain-of-Thought'', ''Few-Shot'', ''Zero-Shot''}"
  by (simp add: recommend_pattern_def)

text \<open>
  C6 at four prompts: both texts, \<open>example\<close> alone, \<open>step by step\<close> alone, neither.
\<close>

theorem recommend_pattern_spec_witness:
  "recommend_pattern ''coding'' ''Give an Example, Step by Step'' = ''Chain-of-Thought''
   \<and> recommend_pattern ''coding'' ''Give me an example first'' = ''Few-Shot''
   \<and> recommend_pattern ''coding'' ''solve step by step'' = ''Chain-of-Thought''
   \<and> recommend_pattern ''coding'' ''Explain anomaly detection'' = ''Zero-Shot''"
proof -
  have a: "contains (lower ''Give an Example, Step by Step'') ''step by step''"
    and b: "contains (lower ''Give an Example, Step by Step'') ''example''"
    and c: "\<not> contains (lower ''Give me an example first'') ''step by step''"
    and d: "contains (lower ''Give me an example first'') ''example''"
    and e: "contains (lower ''solve step by step'') ''step by step''"
    and f: "\<not> contains (lower ''Explain anomaly detection'') ''step by step''"
    and g: "\<not> contains (lower ''Explain anomaly detection'') ''example''"
    by (simp_all add: lower_def char_lower_def)
  from a b c d e f g
    recommend_pattern_spec [of "''coding''" "''Give an Example, Step by Step''"]
    recommend_pattern_spec [of "''coding''" "''Give me an example first''"]
    recommend_pattern_spec [of "''coding''" "''solve step by step''"]
    recommend_pattern_spec [of "''coding''" "''Explain anomaly detection''"]
  show ?thesis by simp
qed

text \<open>
  C7. For every domain name and pattern name, \<^verbatim>\<open>model_config\<close> returns the mean of
  the domain's temperature and the pattern's temperature, each 0.5 for a name that its table
  does not have, rounded to two decimal places, with \<open>max_tokens = 3000\<close>; for \<open>coding\<close>
  and \<open>Structured Output\<close> the temperature is 0.10.
\<close>

theorem model_config_spec:
  "model_config domain pattern =
     \<lparr>temperature = py_round ((domain_temperature domain + pattern_temperature pattern) / 2) 2,
      max_tokens = 3000\<rparr>
   \<and> model_config ''coding'' ''Structured Output'' = \<lparr>temperature = 1/10, max_tokens = 3000\<rparr>"
proof -
  have gen: "model_config d n =
     \<lparr>temperature = py_round ((domain_temperature d + pattern_temperature n) / 2) 2,
      max_tokens = 3000\<rparr>" for d n
    by (simp add: model_config_def get_domain_temperature get_pattern_temperature)
  have "domain_temperature ''coding'' = 1/10" by (simp add: domain_temperature_def)
  moreover have "pattern_temperature ''Structured Output'' = 1/10"
    by (simp add: pattern_temperature_def)
  ultimately have "model_config ''coding'' ''Structured Output'' = \<lparr>temperature = 1/10, max_tokens = 3000\<rparr>"
    using py_round_tenth by (simp only: gen)
  with gen show ?thesis by simp
qed

subsection \<open>The handler\<close>

lemma refine_handler_calls_provider:
  assumes "api_key \<noteq> []" and "strip user_prompt \<noteq> []"
  shows "length (snd (refine_handler (recording_provider answer) str_float True api_key
                        model_choice user_prompt seen)) = Suc (length seen)"
  using assms
  by (simp add: refine_handler_def recording_provider_def Let_def case_prod_unfold)

text \<open>
  C9. When the button is pressed with an empty API key, the handler shows the error that
  asks for the key and nothing else, for every prompt (empty or not): no spinner, no metric
  and no issue of the analysis is shown, and the provider is not called, so its state is
  the one it had before.
\<close>

theorem missing_key_no_call:
  assumes "api_key = []"
  shows "refine_handler provider str_float True api_key model_choice user_prompt st
           = ([StError ''Please enter your Groq API key.''], st)"
  using assms by (simp add: refine_handler_def)

text \<open>
  C9 with a provider that records the requests it receives: after the handler has run with
  an empty key and a prompt that is not empty, the record is still empty.
\<close>

theorem missing_key_no_call_witness:
  "refine_handler (recording_provider ''refined'') (\<lambda>x. ''0.1'') True []
       ''llama-3.1-8b-instant'' ''Explain anomaly detection in machine learning'' []
     = ([StError ''Please enter your Groq API key.''], [])"
proof -
  have "([]::string) = []" by simp
  then show ?thesis by (rule missing_key_no_call)
qed

end
